theory Spec2Isabelle
  imports Complex_Main "HOL-Library.Word"
begin

section \<open>Python values and operators used by the pipeline\<close>

text \<open>
  The pipeline of \<^verbatim>\<open>app.py\<close> computes with Python floats and with values decoded from
  JSON. Numbers are modelled as \<^typ>\<open>real\<close>, integers and floats alike: every arithmetic
  operation is exact, so rounding, overflow (also that of a decoded integer beyond the
  float range), infinities and NaN are outside the model. Decoded JSON keeps Python's
  dynamic typing: a value is \<^verbatim>\<open>None\<close>, a bool, a number, a string, a list or a dict.
\<close>

datatype pyval =
    PyNone
  | PyBool bool
  | PyNum real
  | PyStr string
  | PyList "pyval list"
  | PyDict "(string \<times> pyval) list"

datatype py_exception =
    TypeError
  | ValueError
  | AttributeError
  | KeyError
  | ZeroDivisionError
  | ExternalError string

text \<open>Truth value testing (\<^verbatim>\<open>if v:\<close>).\<close>

fun truthy :: "pyval \<Rightarrow> bool" where
  "truthy PyNone = False"
| "truthy (PyBool b) = b"
| "truthy (PyNum r) = (r \<noteq> 0)"
| "truthy (PyStr s) = (s \<noteq> [])"
| "truthy (PyList xs) = (xs \<noteq> [])"
| "truthy (PyDict kvs) = (kvs \<noteq> [])"

text \<open>The numeric reading of an operand: numbers, and bools as 1 and 0.\<close>

fun num_of :: "pyval \<Rightarrow> real option" where
  "num_of (PyNum r) = Some r"
| "num_of (PyBool b) = Some (if b then 1 else 0)"
| "num_of _ = None"

text \<open>\<^verbatim>\<open>a - b\<close> and \<^verbatim>\<open>a / b\<close> with a numeric result; any other operand raises TypeError.\<close>

definition py_sub :: "pyval \<Rightarrow> pyval \<Rightarrow> py_exception + real" where
  "py_sub a b =
     (case (num_of a, num_of b) of
        (Some x, Some y) \<Rightarrow> Inr (x - y)
      | _ \<Rightarrow> Inl TypeError)"

definition py_truediv :: "pyval \<Rightarrow> pyval \<Rightarrow> py_exception + real" where
  "py_truediv a b =
     (case (num_of a, num_of b) of
        (Some x, Some y) \<Rightarrow> if y = 0 then Inl ZeroDivisionError else Inr (x / y)
      | _ \<Rightarrow> Inl TypeError)"

text \<open>
  \<^verbatim>\<open>d.get(k, default)\<close> on a decoded JSON value: only a dict has the method. A dict
  literal is an association list read by its first binding of a key.
\<close>

definition py_get :: "pyval \<Rightarrow> string \<Rightarrow> pyval \<Rightarrow> py_exception + pyval" where
  "py_get d k dflt =
     (case d of
        PyDict kvs \<Rightarrow> Inr (case map_of kvs k of None \<Rightarrow> dflt | Some v \<Rightarrow> v)
      | _ \<Rightarrow> Inl AttributeError)"

text \<open>The rate table is a dict from pair labels to values.\<close>

type_synonym fx_table = "string \<rightharpoonup> pyval"

definition dict_get :: "fx_table \<Rightarrow> string \<Rightarrow> pyval" where
  "dict_get d k = (case d k of None \<Rightarrow> PyNone | Some v \<Rightarrow> v)"

definition dict_index :: "fx_table \<Rightarrow> string \<Rightarrow> py_exception + pyval" where
  "dict_index d k = (case d k of None \<Rightarrow> Inl KeyError | Some v \<Rightarrow> Inr v)"

section \<open>Chain reads\<close>

text \<open>
  The contract calls are the external world. Each returns its decoded value or raises;
  a raise is \<open>Inl\<close> of the exception's message (\<^verbatim>\<open>str(e)\<close>). The widths are those of the
  ABI declarations: \<^verbatim>\<open>sqrtPriceX96\<close> is a uint160, \<^verbatim>\<open>decimals\<close> a uint8,
  \<^verbatim>\<open>convertToAssets\<close> returns a uint256; a native balance is a uint256 as well.
  Of the seven fields of \<^verbatim>\<open>slot0\<close> only the first is read.
\<close>

type_synonym uint8 = "8 word"
type_synonym uint160 = "160 word"
type_synonym uint256 = "256 word"

record chain =
  slot0_sqrtPriceX96 :: "string \<Rightarrow> string + uint160"
  token0 :: "string \<Rightarrow> string + string"
  token1 :: "string \<Rightarrow> string + string"
  decimals :: "string \<Rightarrow> string + uint8"
  convertToAssets :: "string \<Rightarrow> nat \<Rightarrow> string + uint256"
  get_balance :: "string \<Rightarrow> string + uint256"

record web3 =
  to_checksum_address :: "string \<Rightarrow> string + string"
  w3_gnosis :: chain
  w3_mainnet :: chain

section \<open>Price decoder\<close>

datatype price_result =
    Price_Success real
  | Price_Failure string


definition get_pool_price :: "web3 \<Rightarrow> string \<Rightarrow> price_result" where
  "get_pool_price w pool_address =
     (case to_checksum_address w pool_address of
        Inl e \<Rightarrow> Price_Failure e
      | Inr pool \<Rightarrow>
     (case slot0_sqrtPriceX96 (w3_gnosis w) pool of
        Inl e \<Rightarrow> Price_Failure e
      | Inr sqrt_price_x96 \<Rightarrow>
     (case token0 (w3_gnosis w) pool of
        Inl e \<Rightarrow> Price_Failure e
      | Inr token0_addr \<Rightarrow>
     (case token1 (w3_gnosis w) pool of
        Inl e \<Rightarrow> Price_Failure e
      | Inr token1_addr \<Rightarrow>
     (case decimals (w3_gnosis w) token0_addr of
        Inl e \<Rightarrow> Price_Failure e
      | Inr decimals0 \<Rightarrow>
     (case decimals (w3_gnosis w) token1_addr of
        Inl e \<Rightarrow> Price_Failure e
      | Inr decimals1 \<Rightarrow>
          Price_Success
            ((real (unat sqrt_price_x96) / 2 ^ 96) ^ 2
              * 10 powi (int (unat decimals0) - int (unat decimals1)))))))))"

text \<open>
  The decoding rule in the specification's words: the raw value over \<open>2^96\<close>, squared,
  rescaled by ten to the difference of the decimal counts (a division when token1 has
  more decimals than token0).
\<close>

definition normalized_price_spec :: "nat \<Rightarrow> nat \<Rightarrow> nat \<Rightarrow> real" where
  "normalized_price_spec raw_sqrt_price d0 d1 =
     (if d1 \<le> d0
      then (real raw_sqrt_price / 2 ^ 96) * (real raw_sqrt_price / 2 ^ 96) * 10 ^ (d0 - d1)
      else (real raw_sqrt_price / 2 ^ 96) * (real raw_sqrt_price / 2 ^ 96) / 10 ^ (d1 - d0))"

section \<open>Yield adjustment and balances\<close>

definition SDAI_ADDRESS :: string where
  "SDAI_ADDRESS = ''0xaf204776c7245bf4147c2612bf6e5972ee483701''"

definition get_sdai_rate :: "web3 \<Rightarrow> real" where
  "get_sdai_rate w =
     (case to_checksum_address w SDAI_ADDRESS of
        Inl e \<Rightarrow> 1
      | Inr sdai \<Rightarrow>
     (case convertToAssets (w3_gnosis w) sdai (10 ^ 18) of
        Inl e \<Rightarrow> 1
      | Inr assets \<Rightarrow> real (unat assets) / 10 ^ 18))"

datatype balance_result =
    Balance_Success real
  | Balance_Failure string

fun balance_success :: "balance_result \<Rightarrow> bool" where
  "balance_success (Balance_Success b) = True"
| "balance_success (Balance_Failure e) = False"


section \<open>FX rate aggregator\<close>

text \<open>
  The HTTP call raises, or returns a response with a status code and a body;
  \<^verbatim>\<open>resp.json()\<close> raises or returns the decoded value.
\<close>

datatype json_body =
    Json_Raises py_exception
  | Json pyval

datatype http_result =
    Http_Raises py_exception
  | Http_Response int json_body

text \<open>
  The body of the \<^verbatim>\<open>try\<close> is a block of statements over the local dict \<^verbatim>\<open>rates\<close>. A
  statement returns the exception it raised, if any, and the dict as it stands then:
  an assignment evaluates its right-hand side first and stores only when that returned.
\<close>

type_synonym stmt = "fx_table \<Rightarrow> py_exception option \<times> fx_table"

definition assign :: "string \<Rightarrow> (fx_table \<Rightarrow> py_exception + pyval) \<Rightarrow> stmt" where
  "assign k rhs rates =
     (case rhs rates of
        Inl e \<Rightarrow> (Some e, rates)
      | Inr v \<Rightarrow> (None, rates(k \<mapsto> v)))"

definition when_stmt :: "(fx_table \<Rightarrow> bool) \<Rightarrow> stmt \<Rightarrow> stmt" where
  "when_stmt cond body rates = (if cond rates then body rates else (None, rates))"

fun block :: "stmt list \<Rightarrow> stmt" where
  "block [] rates = (None, rates)"
| "block (s # ss) rates =
     (case s rates of
        (Some e, rates') \<Rightarrow> (Some e, rates')
      | (None, rates') \<Rightarrow> block ss rates')"

text \<open>The two right-hand sides: \<^verbatim>\<open>1 / rates[k]\<close> and \<^verbatim>\<open>rates[k1] / rates[k2]\<close>.\<close>

definition reciprocal_of :: "string \<Rightarrow> fx_table \<Rightarrow> py_exception + pyval" where
  "reciprocal_of k rates =
     (case dict_index rates k of
        Inl e \<Rightarrow> Inl e
      | Inr d \<Rightarrow>
     (case py_truediv (PyNum 1) d of
        Inl e \<Rightarrow> Inl e
      | Inr q \<Rightarrow> Inr (PyNum q)))"

definition ratio_of :: "string \<Rightarrow> string \<Rightarrow> fx_table \<Rightarrow> py_exception + pyval" where
  "ratio_of k1 k2 rates =
     (case dict_index rates k1 of
        Inl e \<Rightarrow> Inl e
      | Inr n \<Rightarrow>
     (case dict_index rates k2 of
        Inl e \<Rightarrow> Inl e
      | Inr d \<Rightarrow>
     (case py_truediv n d of
        Inl e \<Rightarrow> Inl e
      | Inr q \<Rightarrow> Inr (PyNum q))))"

definition fx_try :: "http_result \<Rightarrow> py_exception option \<times> fx_table" where
  "fx_try http =
     (case http of
        Http_Raises e \<Rightarrow> (Some e, Map.empty)
      | Http_Response status_code body \<Rightarrow>
          if status_code = 200 then
            (case body of
               Json_Raises e \<Rightarrow> (Some e, Map.empty)
             | Json j \<Rightarrow>
            (case py_get j ''rates'' (PyDict []) of
               Inl e \<Rightarrow> (Some e, Map.empty)
             | Inr usd \<Rightarrow>
                 block
                   [assign ''USD/BRL'' (\<lambda>rates. py_get usd ''BRL'' PyNone),
                    assign ''USD/CHF'' (\<lambda>rates. py_get usd ''CHF'' PyNone),
                    assign ''USD/EUR'' (\<lambda>rates. py_get usd ''EUR'' PyNone),
                    assign ''USD/GBP'' (\<lambda>rates. py_get usd ''GBP'' PyNone),
                    when_stmt (\<lambda>rates. truthy (dict_get rates ''USD/BRL''))
                      (assign ''BRL/USD'' (reciprocal_of ''USD/BRL'')),
                    when_stmt (\<lambda>rates. truthy (dict_get rates ''USD/CHF'')
                                 \<and> truthy (dict_get rates ''USD/EUR''))
                      (assign ''EUR/CHF'' (ratio_of ''USD/CHF'' ''USD/EUR'')),
                    when_stmt (\<lambda>rates. truthy (dict_get rates ''USD/GBP''))
                      (assign ''GBP/USD'' (reciprocal_of ''USD/GBP''))]
                   Map.empty))
          else (None, Map.empty))"

text \<open>
  Whether the body returned or raised, the handler only logs a warning and the function
  returns \<^verbatim>\<open>rates\<close> as it stands.
\<close>

definition get_fx_rates :: "http_result \<Rightarrow> fx_table" where
  "get_fx_rates http =
     (case fx_try http of
        (None, rates) \<Rightarrow> rates
      | (Some e, rates) \<Rightarrow> rates)"

section \<open>Deviation classifier and pool rows\<close>

record pool_config =
  address :: string
  pair :: string
  fx_pair :: string
  sdai_adjust :: bool

definition POOLS :: "pool_config list" where
  "POOLS =
     [\<lparr>address = ''0x576bf065cbc15cb2d61affb156118fcff01a8238'', pair = ''USDC.E/BRLA'',
        fx_pair = ''USD/BRL'', sdai_adjust = False\<rparr>,
      \<lparr>address = ''0x1bb53efa5523c80b598b561e266dfdc938f80e4f'', pair = ''EURE/ZCHF'',
        fx_pair = ''EUR/CHF'', sdai_adjust = False\<rparr>,
      \<lparr>address = ''0x9fc285501a38d734e7b42147445d303cf8f7946b'', pair = ''BRZ/USDC.E'',
        fx_pair = ''BRL/USD'', sdai_adjust = False\<rparr>,
      \<lparr>address = ''0x22eb73322b6334ccf07fc2f9f22690a012d22797'', pair = ''GBPE/SDAI'',
        fx_pair = ''GBP/USD'', sdai_adjust = True\<rparr>]"

text \<open>
  Float formatting is Python's own: the two format specifications the rows use,
  \<^verbatim>\<open>.4f\<close> and \<^verbatim>\<open>+.2f\<close>, are parameters. The placeholder is the em dash (U+2014), here
  its three UTF-8 bytes.
\<close>

record py_format =
  fmt_4f :: "real \<Rightarrow> string"
  fmt_signed_2f :: "real \<Rightarrow> string"

definition em_dash :: string where
  "em_dash = [CHR 0xE2, CHR 0x80, CHR 0x94]"

text \<open>\<^verbatim>\<open>f"{v:.4f}"\<close> on a dynamically typed value.\<close>

fun format_4f :: "py_format \<Rightarrow> pyval \<Rightarrow> py_exception + string" where
  "format_4f fmt (PyNum r) = Inr (fmt_4f fmt r)"
| "format_4f fmt (PyBool b) = Inr (fmt_4f fmt (if b then 1 else 0))"
| "format_4f fmt (PyStr s) = Inl ValueError"
| "format_4f fmt v = Inl TypeError"

text \<open>\<^verbatim>\<open>s[:8]\<close>, two dots, \<^verbatim>\<open>s[-4:]\<close>.\<close>

definition short_addr :: "string \<Rightarrow> string" where
  "short_addr s = take 8 s @ ''..'' @ drop (length s - 4) s"

text \<open>
  The deviation and its class, or \<open>None\<close> when the guard fails; this is the
  \<^verbatim>\<open>if fx_rate and pool_price > 0\<close> statement up to the rendering of \<^verbatim>\<open>dev_str\<close>.
\<close>

definition deviation :: "pyval \<Rightarrow> real \<Rightarrow> py_exception + (real \<times> string) option" where
  "deviation fx_rate pool_price =
     (if truthy fx_rate \<and> pool_price > 0 then
        (case py_sub (PyNum pool_price) fx_rate of
           Inl e \<Rightarrow> Inl e
         | Inr diff \<Rightarrow>
        (case py_truediv (PyNum diff) fx_rate of
           Inl e \<Rightarrow> Inl e
         | Inr q \<Rightarrow>
             let dev = q * 100;
                 dev_class =
                   (if \<bar>dev\<bar> < 0.5 then ''positive''
                    else if \<bar>dev\<bar> > 2 then ''negative''
                    else ''neutral'')
             in Inr (Some (dev, dev_class))))
      else Inr None)"

definition dev_str :: "py_format \<Rightarrow> pyval \<Rightarrow> real \<Rightarrow> py_exception + string" where
  "dev_str fmt fx_rate pool_price =
     (case deviation fx_rate pool_price of
        Inl e \<Rightarrow> Inl e
      | Inr (Some (dev, dev_class)) \<Rightarrow>
          Inr (''<span class='' @ [CHR 0x27] @ dev_class @ [CHR 0x27] @ ''>''
                 @ fmt_signed_2f fmt dev @ ''%</span>'')
      | Inr None \<Rightarrow> Inr em_dash)"

record pool_row =
  row_pair :: string
  row_addr :: string
  row_full_addr :: string
  row_price :: string
  row_fx_pair :: string
  row_fx_rate :: string
  row_dev :: string

text \<open>
  The first statements of the loop body on a successful price call: the price, multiplied
  by the vault ratio for a pool with the \<^verbatim>\<open>sdai_adjust\<close> flag, and the benchmark looked up
  in the table (\<^verbatim>\<open>None\<close> for an empty pair label).
\<close>

definition adjusted_pool_price :: "pool_config \<Rightarrow> real \<Rightarrow> real \<Rightarrow> real" where
  "adjusted_pool_price pool price sdai_rate =
     (if sdai_adjust pool then price * sdai_rate else price)"

definition fx_rate_for :: "fx_table \<Rightarrow> pool_config \<Rightarrow> pyval" where
  "fx_rate_for fx_rates pool =
     (if fx_pair pool \<noteq> [] then dict_get fx_rates (fx_pair pool) else PyNone)"

text \<open>One pass of the loop body of \<^verbatim>\<open>fetch_pool_data\<close>, for the result \<open>data\<close> of the pool's price call.\<close>

definition pool_row_of ::
  "py_format \<Rightarrow> fx_table \<Rightarrow> real \<Rightarrow> pool_config \<Rightarrow> price_result \<Rightarrow> py_exception + pool_row" where
  "pool_row_of fmt fx_rates sdai_rate pool data =
     (case data of
        Price_Success price \<Rightarrow>
          let pool_price = adjusted_pool_price pool price sdai_rate;
              fx_rate = fx_rate_for fx_rates pool
          in
          (case dev_str fmt fx_rate pool_price of
             Inl e \<Rightarrow> Inl e
           | Inr dev \<Rightarrow>
          (case (if truthy fx_rate then format_4f fmt fx_rate else Inr em_dash) of
             Inl e \<Rightarrow> Inl e
           | Inr rate \<Rightarrow>
               Inr \<lparr>row_pair = pair pool,
                    row_addr = short_addr (address pool),
                    row_full_addr = address pool,
                    row_price = fmt_4f fmt pool_price,
                    row_fx_pair = (if fx_pair pool \<noteq> [] then fx_pair pool else em_dash),
                    row_fx_rate = rate,
                    row_dev = dev\<rparr>))
      | Price_Failure e \<Rightarrow>
          Inr \<lparr>row_pair = pair pool,
               row_addr = short_addr (address pool),
               row_full_addr = address pool,
               row_price = ''ERR'',
               row_fx_pair = (if fx_pair pool \<noteq> [] then fx_pair pool else em_dash),
               row_fx_rate = em_dash,
               row_dev = em_dash\<rparr>)"

text \<open>
  A benchmark value on which a row can be built: a number (or a bool, which Python
  counts as one), \<^verbatim>\<open>None\<close>, or an empty string, list or dict, which are falsy like
  \<^verbatim>\<open>None\<close>. Any other decoded value makes the arithmetic or the formatting raise.
\<close>

fun usable_rate :: "pyval \<Rightarrow> bool" where
  "usable_rate PyNone = True"
| "usable_rate (PyBool b) = True"
| "usable_rate (PyNum r) = True"
| "usable_rate (PyStr s) = (s = [])"
| "usable_rate (PyList xs) = (xs = [])"
| "usable_rate (PyDict kvs) = (kvs = [])"

text \<open>
  The loop over the configured pools: rows are appended in order, and an exception in
  one pass leaves the loop. The rate table, the vault ratio and the per-address price
  results are what the calls \<^verbatim>\<open>get_fx_rates()\<close>, \<^verbatim>\<open>get_sdai_rate()\<close> and
  \<^verbatim>\<open>get_pool_price(address)\<close> return to the orchestrator; \<open>timestamp\<close> is the formatted
  clock reading.
\<close>

fun pool_rows ::
  "py_format \<Rightarrow> fx_table \<Rightarrow> real \<Rightarrow> (string \<Rightarrow> price_result) \<Rightarrow> pool_config list
     \<Rightarrow> pool_row list \<Rightarrow> py_exception + pool_row list" where
  "pool_rows fmt fx_rates sdai_rate price_of [] rows = Inr rows"
| "pool_rows fmt fx_rates sdai_rate price_of (pool # pools) rows =
     (case pool_row_of fmt fx_rates sdai_rate pool (price_of (address pool)) of
        Inl e \<Rightarrow> Inl e
      | Inr row \<Rightarrow> pool_rows fmt fx_rates sdai_rate price_of pools (rows @ [row]))"

definition fetch_pool_data ::
  "py_format \<Rightarrow> pool_config list \<Rightarrow> fx_table \<Rightarrow> real \<Rightarrow> (string \<Rightarrow> price_result) \<Rightarrow> string
     \<Rightarrow> py_exception + pool_row list \<times> string" where
  "fetch_pool_data fmt pools fx_rates sdai_rate price_of timestamp =
     (case pool_rows fmt fx_rates sdai_rate price_of pools [] of
        Inl e \<Rightarrow> Inl e
      | Inr rows \<Rightarrow> Inr (rows, timestamp))"

section \<open>Monitored accounts\<close>







section \<open>TTL cache layer\<close>

text \<open>
  Modelled from the spec: the memoising decorator \<^verbatim>\<open>st.cache_data(ttl=...)\<close> is
  Streamlit's and its code is not part of the repository; this is section 4.5 of the
  specification. Each cached function has its own cache, keyed by the call's arguments;
  an entry holds the stored value and its creation time. The clock is a parameter
  (\<open>now\<close>, in seconds), and so is the underlying function, whose result may depend on
  the time of the call. The cache also records every invocation of the underlying
  function, so that invocations can be counted.
\<close>

record ('a, 'v) cache =
  entries :: "'a \<rightharpoonup> 'v \<times> int"
  fetches :: "('a \<times> int) list"

text \<open>
  Modelled from the spec: a miss invokes the underlying function, stores the result
  (success or failure value alike) with the current time, and returns it.
\<close>

definition cache_refresh ::
  "(int \<Rightarrow> 'a \<Rightarrow> 'v) \<Rightarrow> int \<Rightarrow> 'a \<Rightarrow> ('a, 'v) cache \<Rightarrow> 'v \<times> ('a, 'v) cache" where
  "cache_refresh fetch now args c =
     (let v = fetch now args
      in (v, c\<lparr>entries := (entries c)(args \<mapsto> (v, now)),
               fetches := fetches c @ [(args, now)]\<rparr>))"

text \<open>
  Modelled from the spec: if an entry exists and its age is below the function's TTL, the
  stored value is returned without invoking the underlying function; otherwise the
  underlying function is invoked.
\<close>

definition cached_call ::
  "int \<Rightarrow> (int \<Rightarrow> 'a \<Rightarrow> 'v) \<Rightarrow> int \<Rightarrow> 'a \<Rightarrow> ('a, 'v) cache \<Rightarrow> 'v \<times> ('a, 'v) cache" where
  "cached_call ttl fetch now args c =
     (case entries c args of
        Some (v, created) \<Rightarrow>
          if now - created < ttl then (v, c) else cache_refresh fetch now args c
      | None \<Rightarrow> cache_refresh fetch now args c)"

definition empty_cache :: "('a, 'v) cache" where
  "empty_cache = \<lparr>entries = Map.empty, fetches = []\<rparr>"

section \<open>Auxiliary definitions\<close>

text \<open>
  The table after the four assignments of the fetched rates, and the rest of the block:
  the three guarded derivations.
\<close>

definition usd_rates :: "pyval \<Rightarrow> pyval \<Rightarrow> pyval \<Rightarrow> pyval \<Rightarrow> fx_table" where
  "usd_rates brl chf eur gbp =
     [''USD/BRL'' \<mapsto> brl, ''USD/CHF'' \<mapsto> chf, ''USD/EUR'' \<mapsto> eur, ''USD/GBP'' \<mapsto> gbp]"

definition fx_derivations :: stmt where
  "fx_derivations =
     block
       [when_stmt (\<lambda>rates. truthy (dict_get rates ''USD/BRL''))
          (assign ''BRL/USD'' (reciprocal_of ''USD/BRL'')),
        when_stmt (\<lambda>rates. truthy (dict_get rates ''USD/CHF'')
                     \<and> truthy (dict_get rates ''USD/EUR''))
          (assign ''EUR/CHF'' (ratio_of ''USD/CHF'' ''USD/EUR'')),
        when_stmt (\<lambda>rates. truthy (dict_get rates ''USD/GBP''))
          (assign ''GBP/USD'' (reciprocal_of ''USD/GBP''))]"

text \<open>
  A pair has no rate for a reader that tests \<^verbatim>\<open>rates.get(k)\<close>: the key is missing, or
  its value is \<^verbatim>\<open>None\<close>, zero or another falsy value.
\<close>

definition no_rate :: "fx_table \<Rightarrow> string \<Rightarrow> bool" where
  "no_rate rates k = (\<not> truthy (dict_get rates k))"


section \<open>Example inputs\<close>

text \<open>
  A chain on which every read succeeds: a pool at square-root price one with two
  18-decimal tokens, a vault paying 1.05 assets per share, accounts holding one unit.
\<close>

definition example_chain :: chain where
  "example_chain =
     \<lparr>slot0_sqrtPriceX96 = (\<lambda>a. Inr (2 ^ 96)),
      token0 = (\<lambda>a. Inr ''0xT0''),
      token1 = (\<lambda>a. Inr ''0xT1''),
      decimals = (\<lambda>a. Inr 18),
      convertToAssets = (\<lambda>a n. Inr (105 * 10 ^ 16)),
      get_balance = (\<lambda>a. Inr (10 ^ 18))\<rparr>"

definition example_web3 :: web3 where
  "example_web3 =
     \<lparr>to_checksum_address = Inr, w3_gnosis = example_chain, w3_mainnet = example_chain\<rparr>"

text \<open>A chain on which every read raises.\<close>

definition failing_chain :: chain where
  "failing_chain =
     \<lparr>slot0_sqrtPriceX96 = (\<lambda>a. Inl ''timeout''),
      token0 = (\<lambda>a. Inl ''timeout''),
      token1 = (\<lambda>a. Inl ''timeout''),
      decimals = (\<lambda>a. Inl ''timeout''),
      convertToAssets = (\<lambda>a n. Inl ''timeout''),
      get_balance = (\<lambda>a. Inl ''timeout'')\<rparr>"

definition failing_web3 :: web3 where
  "failing_web3 =
     \<lparr>to_checksum_address = Inr, w3_gnosis = failing_chain, w3_mainnet = failing_chain\<rparr>"




text \<open>An underlying price fetch whose chain answers before second 60 and raises from then on.\<close>

definition example_fetch :: "int \<Rightarrow> string \<Rightarrow> price_result" where
  "example_fetch t a = get_pool_price (if t < 60 then example_web3 else failing_web3) a"

text \<open>The rate service's answer of the specification's end-to-end scenario.\<close>

definition example_fx_json :: pyval where
  "example_fx_json =
     PyDict [(''rates'', PyDict [(''BRL'', PyNum 5), (''EUR'', PyNum 0.9),
                                  (''CHF'', PyNum 0.95), (''GBP'', PyNum 0.8)])]"

text \<open>A malformed answer: the rate of one currency is a text, two others are missing.\<close>

definition malformed_fx_json :: pyval where
  "malformed_fx_json =
     PyDict [(''rates'', PyDict [(''BRL'', PyStr ''n/a''), (''GBP'', PyNum 0.8)])]"

text \<open>Formatters for the examples: what they print does not matter there.\<close>

definition example_format :: py_format where
  "example_format = \<lparr>fmt_4f = (\<lambda>x. ''0.0000''), fmt_signed_2f = (\<lambda>x. ''+0.00'')\<rparr>"

section \<open>Properties of the price decoder\<close>

lemma powi_diff_nat:
  "(10::real) powi (int a - int b) = (if b \<le> a then 10 ^ (a - b) else 1 / 10 ^ (b - a))"
proof (cases "b \<le> a")
  case True
  then have "int a - int b = int (a - b)" by simp
  then show ?thesis using True by (simp only: power_int_of_nat if_True)
next
  case False
  then have "int a - int b = - int (b - a)" by simp
  then show ?thesis using False
    by (simp only: power_int_minus_divide power_int_of_nat if_False)
qed

text \<open>
  C1. When the five chain reads of a pool succeed with raw square-root price \<open>s\<close> and
  decimal counts \<open>d0\<close>, \<open>d1\<close>, the decoder returns the success result carrying
  \<open>(s / 2^96)^2 * 10^(d0 - d1)\<close>; with \<open>s = 2^96\<close> and equal decimals the price is 1.
\<close>

theorem get_pool_price_formula:
  assumes "to_checksum_address w pool_address = Inr pool"
    and "slot0_sqrtPriceX96 (w3_gnosis w) pool = Inr s"
    and "token0 (w3_gnosis w) pool = Inr t0" and "token1 (w3_gnosis w) pool = Inr t1"
    and "decimals (w3_gnosis w) t0 = Inr d0" and "decimals (w3_gnosis w) t1 = Inr d1"
  shows "get_pool_price w pool_address =
           Price_Success (normalized_price_spec (unat s) (unat d0) (unat d1))
       \<and> (unat s = 2 ^ 96 \<and> d0 = d1 \<longrightarrow> get_pool_price w pool_address = Price_Success 1)"
proof -
  let ?p = "(real (unat s) / 2 ^ 96) ^ 2 * 10 powi (int (unat d0) - int (unat d1))"
  have eq: "get_pool_price w pool_address = Price_Success ?p"
    using assms by (simp add: get_pool_price_def)
  have spec: "?p = normalized_price_spec (unat s) (unat d0) (unat d1)"
    unfolding normalized_price_spec_def powi_diff_nat power2_eq_square by simp
  have one: "?p = 1" if "unat s = 2 ^ 96 \<and> d0 = d1"
    using that by simp
  show ?thesis
  proof (intro conjI impI)
    show "get_pool_price w pool_address =
        Price_Success (normalized_price_spec (unat s) (unat d0) (unat d1))"
      by (simp only: eq spec)
  next
    assume "unat s = 2 ^ 96 \<and> d0 = d1"
    then have "?p = 1" by (rule one)
    with eq show "get_pool_price w pool_address = Price_Success 1"
      by simp
  qed
qed

theorem get_pool_price_formula_witness:
  "get_pool_price example_web3 ''0x57'' = Price_Success (normalized_price_spec (2 ^ 96) 18 18)
   \<and> get_pool_price example_web3 ''0x57'' = Price_Success 1"
proof -
  have h: "get_pool_price example_web3 ''0x57'' =
             Price_Success (normalized_price_spec (unat (2 ^ 96 :: uint160))
                (unat (18 :: uint8)) (unat (18 :: uint8)))
       \<and> (unat (2 ^ 96 :: uint160) = 2 ^ 96 \<and> (18 :: uint8) = 18
            \<longrightarrow> get_pool_price example_web3 ''0x57'' = Price_Success 1)"
    by (rule get_pool_price_formula
          [where pool = "''0x57''" and ?t0.0 = "''0xT0''" and ?t1.0 = "''0xT1''"])
       (simp_all add: example_web3_def example_chain_def)
  have u: "unat (2 ^ 96 :: uint160) = 2 ^ 96" "unat (18 :: uint8) = 18"
    by simp_all
  from h show ?thesis unfolding u by blast
qed

lemma example_pool_prices:
  "get_pool_price example_web3 a = Price_Success 1"
  "get_pool_price failing_web3 a = Price_Failure ''timeout''"
  by (simp_all add: get_pool_price_def example_web3_def example_chain_def failing_web3_def
      failing_chain_def)

section \<open>Properties of the deviation classifier\<close>

lemma deviation_num:
  assumes "0 < P" and "B \<noteq> 0"
  shows "deviation (PyNum B) P =
     Inr (Some ((P - B) / B * 100,
        if \<bar>(P - B) / B * 100\<bar> < 0.5 then ''positive''
        else if \<bar>(P - B) / B * 100\<bar> > 2 then ''negative'' else ''neutral''))"
  using assms by (simp add: deviation_def py_sub_def py_truediv_def Let_def)

lemma deviation_guard_fails:
  "\<not> (truthy v \<and> 0 < P) \<Longrightarrow> deviation v P = Inr None"
  by (auto simp: deviation_def)

lemma dev_str_guard_fails:
  "\<not> (truthy v \<and> 0 < P) \<Longrightarrow> dev_str fmt v P = Inr em_dash"
  by (simp add: dev_str_def deviation_guard_fails)

lemma dev_class_cases:
  fixes d :: real
  defines "c \<equiv> (if \<bar>d\<bar> < 0.5 then ''positive'' else if \<bar>d\<bar> > 2 then ''negative'' else ''neutral'')"
  shows "c = ''positive'' \<longleftrightarrow> \<bar>d\<bar> < 0.5"
    and "c = ''negative'' \<longleftrightarrow> \<bar>d\<bar> > 2"
    and "c = ''neutral'' \<longleftrightarrow> 0.5 \<le> \<bar>d\<bar> \<and> \<bar>d\<bar> \<le> 2"
  unfolding c_def by auto

text \<open>
  C2. For an on-chain price \<open>P > 0\<close> and a benchmark rate \<open>B\<close> that is a non-zero
  number, the classifier yields the deviation \<open>(P - B) / B * 100\<close> with a class \<open>c\<close>
  that is rendered into the row's span, where \<open>c\<close> is "positive" exactly when the
  absolute deviation is below 0.5, "negative" exactly when it is above 2, and "neutral"
  exactly in between, both bounds included: a deviation of exactly 0.5 or exactly 2 is
  "neutral".
\<close>

theorem deviation_classes:
  assumes "0 < P" and "B \<noteq> 0"
  shows "\<exists>c. deviation (PyNum B) P = Inr (Some ((P - B) / B * 100, c))
     \<and> dev_str fmt (PyNum B) P =
          Inr (''<span class='' @ [CHR 0x27] @ c @ [CHR 0x27] @ ''>''
                 @ fmt_signed_2f fmt ((P - B) / B * 100) @ ''%</span>'')
     \<and> (c = ''positive'' \<longleftrightarrow> \<bar>(P - B) / B * 100\<bar> < 0.5)
     \<and> (c = ''negative'' \<longleftrightarrow> \<bar>(P - B) / B * 100\<bar> > 2)
     \<and> (c = ''neutral'' \<longleftrightarrow> 0.5 \<le> \<bar>(P - B) / B * 100\<bar> \<and> \<bar>(P - B) / B * 100\<bar> \<le> 2)
     \<and> (\<bar>(P - B) / B * 100\<bar> = 0.5 \<longrightarrow> c = ''neutral'')
     \<and> (\<bar>(P - B) / B * 100\<bar> = 2 \<longrightarrow> c = ''neutral'')"
proof -
  let ?d = "(P - B) / B * 100"
  let ?c = "if \<bar>?d\<bar> < 0.5 then ''positive'' else if \<bar>?d\<bar> > 2 then ''negative'' else ''neutral''"
  have d: "deviation (PyNum B) P = Inr (Some (?d, ?c))"
    using assms by (rule deviation_num)
  have s: "dev_str fmt (PyNum B) P =
          Inr (''<span class='' @ [CHR 0x27] @ ?c @ [CHR 0x27] @ ''>''
                 @ fmt_signed_2f fmt ?d @ ''%</span>'')"
    by (simp only: dev_str_def d sum.case option.case prod.case)
  have c1: "?c = ''positive'' \<longleftrightarrow> \<bar>?d\<bar> < 0.5"
    by (rule dev_class_cases)
  have c2: "?c = ''negative'' \<longleftrightarrow> \<bar>?d\<bar> > 2"
    by (rule dev_class_cases)
  have c3: "?c = ''neutral'' \<longleftrightarrow> 0.5 \<le> \<bar>?d\<bar> \<and> \<bar>?d\<bar> \<le> 2"
    by (rule dev_class_cases)
  have c4: "\<bar>?d\<bar> = 0.5 \<longrightarrow> ?c = ''neutral''"
    using c3 by linarith
  have c5: "\<bar>?d\<bar> = 2 \<longrightarrow> ?c = ''neutral''"
    using c3 by linarith
  from d s c1 c2 c3 c4 c5 show ?thesis by blast
qed

theorem deviation_classes_witness:
  "deviation (PyNum 1) (201 / 200) = Inr (Some (1 / 2, ''neutral''))
   \<and> deviation (PyNum 1) (51 / 50) = Inr (Some (2, ''neutral''))
   \<and> deviation (PyNum 5) (101 / 20) = Inr (Some (1, ''neutral''))
   \<and> deviation (PyNum 1) (1001 / 1000) = Inr (Some (1 / 10, ''positive''))
   \<and> deviation (PyNum 1) (97 / 100) = Inr (Some (- 3, ''negative''))"
proof -
  have a: "deviation (PyNum 1) (201 / 200) = Inr (Some (1 / 2, ''neutral''))"
    using deviation_classes [of "201 / 200" 1] by auto
  have b: "deviation (PyNum 1) (51 / 50) = Inr (Some (2, ''neutral''))"
    using deviation_classes [of "51 / 50" 1] by auto
  have c: "deviation (PyNum 5) (101 / 20) = Inr (Some (1, ''neutral''))"
    using deviation_classes [of "101 / 20" 5] by auto
  have d: "deviation (PyNum 1) (1001 / 1000) = Inr (Some (1 / 10, ''positive''))"
    using deviation_classes [of "1001 / 1000" 1] by auto
  have e: "deviation (PyNum 1) (97 / 100) = Inr (Some (- 3, ''negative''))"
    using deviation_classes [of "97 / 100" 1] by auto
  from a b c d e show ?thesis by simp
qed




lemma pool_rows_Inl:
  "pool_rows fmt fx_rates sdai_rate price_of pools rows = Inl e \<Longrightarrow>
     \<exists>pool\<in>set pools. pool_row_of fmt fx_rates sdai_rate pool (price_of (address pool)) = Inl e"
  by (induction pools arbitrary: rows) (auto split: sum.splits)

lemma deviation_not_zero_division: "deviation v P \<noteq> Inl ZeroDivisionError"
  by (cases v) (auto simp: deviation_def py_sub_def py_truediv_def Let_def split: sum.splits)

lemma dev_str_not_zero_division: "dev_str fmt v P \<noteq> Inl ZeroDivisionError"
  using deviation_not_zero_division [of v P]
  by (auto simp: dev_str_def split: sum.splits option.splits)

lemma format_4f_not_zero_division: "format_4f fmt v \<noteq> Inl ZeroDivisionError"
  by (cases v) auto

lemma pool_row_of_not_zero_division:
  "pool_row_of fmt fx_rates sdai_rate pool data \<noteq> Inl ZeroDivisionError"
  using dev_str_not_zero_division format_4f_not_zero_division
  by (auto simp: pool_row_of_def Let_def split: price_result.splits sum.splits if_splits)

text \<open>
  C10. The deviation statement never raises ZeroDivisionError: the subtraction and the
  division run only when the benchmark rate is truthy and the pool price is strictly
  positive, a benchmark of 0 or \<^verbatim>\<open>None\<close> gives the placeholder, and neither a row nor the
  whole pass over the pools ends in a division by zero.
\<close>

theorem deviation_never_divides_by_zero:
  "deviation v P \<noteq> Inl ZeroDivisionError
   \<and> (deviation v P \<noteq> Inr None \<longrightarrow> truthy v \<and> 0 < P)
   \<and> deviation (PyNum 0) P = Inr None \<and> dev_str fmt (PyNum 0) P = Inr em_dash
   \<and> deviation PyNone P = Inr None \<and> dev_str fmt PyNone P = Inr em_dash
   \<and> pool_row_of fmt fx_rates sdai_rate pool data \<noteq> Inl ZeroDivisionError
   \<and> fetch_pool_data fmt pools fx_rates sdai_rate price_of timestamp \<noteq> Inl ZeroDivisionError"
proof (intro conjI impI)
  show "deviation v P \<noteq> Inl ZeroDivisionError" by (rule deviation_not_zero_division)
  show "truthy v" if "deviation v P \<noteq> Inr None"
    using that deviation_guard_fails [of v P] by blast
  show "0 < P" if "deviation v P \<noteq> Inr None"
    using that deviation_guard_fails [of v P] by blast
  show "deviation (PyNum 0) P = Inr None" by (simp add: deviation_guard_fails)
  show "dev_str fmt (PyNum 0) P = Inr em_dash" by (simp add: dev_str_guard_fails)
  show "deviation PyNone P = Inr None" by (simp add: deviation_guard_fails)
  show "dev_str fmt PyNone P = Inr em_dash" by (simp add: dev_str_guard_fails)
  show "pool_row_of fmt fx_rates sdai_rate pool data \<noteq> Inl ZeroDivisionError"
    by (rule pool_row_of_not_zero_division)
  show "fetch_pool_data fmt pools fx_rates sdai_rate price_of timestamp \<noteq> Inl ZeroDivisionError"
  proof
    assume "fetch_pool_data fmt pools fx_rates sdai_rate price_of timestamp = Inl ZeroDivisionError"
    then have "pool_rows fmt fx_rates sdai_rate price_of pools [] = Inl ZeroDivisionError"
      by (simp add: fetch_pool_data_def split: sum.splits)
    then show False
      using pool_rows_Inl pool_row_of_not_zero_division by blast
  qed
qed

theorem deviation_never_divides_by_zero_witness:
  "deviation (PyNum 5) (101 / 20) \<noteq> Inr None \<and> truthy (PyNum 5) \<and> (0::real) < 101 / 20
   \<and> deviation (PyNum 0) (101 / 20) = Inr None
   \<and> dev_str example_format (PyNum 0) (101 / 20) = Inr em_dash
   \<and> fetch_pool_data example_format POOLS (Map.empty(''USD/BRL'' \<mapsto> PyNum 0)) 1
         (\<lambda>a. Price_Success (101 / 20)) ''2026-01-01 00:00:00 UTC'' \<noteq> Inl ZeroDivisionError"
proof -
  have h: "deviation (PyNum 5) (101 / 20) \<noteq> Inr None"
    using deviation_num [of "101 / 20" 5] by simp
  note t = deviation_never_divides_by_zero
    [where v = "PyNum 5" and P = "101 / 20" and fmt = example_format and pools = POOLS
       and fx_rates = "Map.empty(''USD/BRL'' \<mapsto> PyNum 0)" and sdai_rate = 1
       and price_of = "\<lambda>a. Price_Success (101 / 20)" and timestamp = "''2026-01-01 00:00:00 UTC''"]
  from h t show ?thesis by blast
qed

section \<open>Properties of the FX rate aggregator\<close>

lemma fx_try_not_ok:
  "fx_try (Http_Raises e) = (Some e, Map.empty)"
  "status_code \<noteq> 200 \<Longrightarrow> fx_try (Http_Response status_code body) = (None, Map.empty)"
  "fx_try (Http_Response 200 (Json_Raises e)) = (Some e, Map.empty)"
  by (simp_all add: fx_try_def)

lemma fx_block_dict:
  "block
     [assign ''USD/BRL'' (\<lambda>rates. py_get (PyDict kvs) ''BRL'' PyNone),
      assign ''USD/CHF'' (\<lambda>rates. py_get (PyDict kvs) ''CHF'' PyNone),
      assign ''USD/EUR'' (\<lambda>rates. py_get (PyDict kvs) ''EUR'' PyNone),
      assign ''USD/GBP'' (\<lambda>rates. py_get (PyDict kvs) ''GBP'' PyNone),
      s1, s2, s3] Map.empty
   = block [s1, s2, s3]
       (usd_rates (case map_of kvs ''BRL'' of None \<Rightarrow> PyNone | Some v \<Rightarrow> v)
                  (case map_of kvs ''CHF'' of None \<Rightarrow> PyNone | Some v \<Rightarrow> v)
                  (case map_of kvs ''EUR'' of None \<Rightarrow> PyNone | Some v \<Rightarrow> v)
                  (case map_of kvs ''GBP'' of None \<Rightarrow> PyNone | Some v \<Rightarrow> v))"
  by (simp add: assign_def py_get_def usd_rates_def)

lemma fx_block_not_dict:
  "\<forall>kvs. usd \<noteq> PyDict kvs \<Longrightarrow>
   block (assign ''USD/BRL'' (\<lambda>rates. py_get usd ''BRL'' PyNone) # ss) Map.empty
   = (Some AttributeError, Map.empty)"
  by (cases usd) (simp_all add: assign_def py_get_def)

lemma truthy_num: "truthy v \<Longrightarrow> num_of v = Some x \<Longrightarrow> x \<noteq> 0"
  by (cases v) (auto split: if_splits)

lemma dict_get_truthy: "truthy (dict_get rates k) \<Longrightarrow> rates k = Some (dict_get rates k)"
  by (cases "rates k") (simp_all add: dict_get_def)

lemma reciprocal_step:
  "when_stmt (\<lambda>rates. truthy (dict_get rates src)) (assign dst (reciprocal_of src)) rates =
     (if truthy (dict_get rates src) then
        (case num_of (dict_get rates src) of
           None \<Rightarrow> (Some TypeError, rates)
         | Some x \<Rightarrow> (None, rates(dst \<mapsto> PyNum (1 / x))))
      else (None, rates))"
proof (cases "truthy (dict_get rates src)")
  case False
  then show ?thesis by (simp add: when_stmt_def)
next
  case True
  then have k: "rates src = Some (dict_get rates src)" by (rule dict_get_truthy)
  show ?thesis
  proof (cases "num_of (dict_get rates src)")
    case None
    with True k show ?thesis
      by (simp add: when_stmt_def assign_def reciprocal_of_def dict_index_def py_truediv_def)
  next
    case (Some x)
    with True have "x \<noteq> 0" by (simp add: truthy_num)
    with True k Some show ?thesis
      by (simp add: when_stmt_def assign_def reciprocal_of_def dict_index_def py_truediv_def)
  qed
qed

lemma quotient_step:
  "when_stmt (\<lambda>rates. truthy (dict_get rates k1) \<and> truthy (dict_get rates k2))
      (assign dst (ratio_of k1 k2)) rates =
     (if truthy (dict_get rates k1) \<and> truthy (dict_get rates k2) then
        (case num_of (dict_get rates k1) of
           None \<Rightarrow> (Some TypeError, rates)
         | Some x \<Rightarrow>
        (case num_of (dict_get rates k2) of
           None \<Rightarrow> (Some TypeError, rates)
         | Some y \<Rightarrow> (None, rates(dst \<mapsto> PyNum (x / y)))))
      else (None, rates))"
proof (cases "truthy (dict_get rates k1) \<and> truthy (dict_get rates k2)")
  case False
  then show ?thesis by (auto simp: when_stmt_def)
next
  case True
  then have k: "rates k1 = Some (dict_get rates k1)" "rates k2 = Some (dict_get rates k2)"
    by (simp_all add: dict_get_truthy)
  have z: "y \<noteq> 0" if "num_of (dict_get rates k2) = Some y" for y
    using True that truthy_num by blast
  show ?thesis
    using True k z
    by (simp add: when_stmt_def assign_def ratio_of_def dict_index_def py_truediv_def
        split: option.splits)
qed

lemma fx_derivations_run:
  "fx_derivations r0 =
     (case when_stmt (\<lambda>rates. truthy (dict_get rates ''USD/BRL''))
             (assign ''BRL/USD'' (reciprocal_of ''USD/BRL'')) r0 of
        (Some e, r1) \<Rightarrow> (Some e, r1)
      | (None, r1) \<Rightarrow>
     (case when_stmt (\<lambda>rates. truthy (dict_get rates ''USD/CHF'')
                        \<and> truthy (dict_get rates ''USD/EUR''))
             (assign ''EUR/CHF'' (ratio_of ''USD/CHF'' ''USD/EUR'')) r1 of
        (Some e, r2) \<Rightarrow> (Some e, r2)
      | (None, r2) \<Rightarrow>
          when_stmt (\<lambda>rates. truthy (dict_get rates ''USD/GBP''))
             (assign ''GBP/USD'' (reciprocal_of ''USD/GBP'')) r2))"
  by (simp add: fx_derivations_def split: prod.splits option.splits)

lemma dict_get_usd_rates:
  "dict_get (usd_rates brl chf eur gbp) ''USD/BRL'' = brl"
  "dict_get (usd_rates brl chf eur gbp) ''USD/CHF'' = chf"
  "dict_get (usd_rates brl chf eur gbp) ''USD/EUR'' = eur"
  "dict_get (usd_rates brl chf eur gbp) ''USD/GBP'' = gbp"
  "usd_rates brl chf eur gbp ''BRL/USD'' = None"
  "usd_rates brl chf eur gbp ''EUR/CHF'' = None"
  "usd_rates brl chf eur gbp ''GBP/USD'' = None"
  by (simp_all add: dict_get_def usd_rates_def)

lemma dict_get_upd:
  "dict_get (rates(k \<mapsto> v)) k' = (if k' = k then v else dict_get rates k')"
  by (simp add: dict_get_def)

lemma fx_derivations_guard:
  assumes "fx_derivations (usd_rates brl chf eur gbp) = (x, rates)"
  shows "(\<not> truthy (dict_get rates ''USD/BRL'') \<longrightarrow> rates ''BRL/USD'' = None)
       \<and> (\<not> truthy (dict_get rates ''USD/GBP'') \<longrightarrow> rates ''GBP/USD'' = None)
       \<and> (\<not> (truthy (dict_get rates ''USD/CHF'') \<and> truthy (dict_get rates ''USD/EUR''))
            \<longrightarrow> rates ''EUR/CHF'' = None)"
  using assms unfolding fx_derivations_run reciprocal_step quotient_step
  by (auto simp: dict_get_usd_rates dict_get_upd split: if_splits option.splits)

lemma fx_try_dict:
  assumes "py_get j ''rates'' (PyDict []) = Inr (PyDict kvs)"
  shows "fx_try (Http_Response 200 (Json j)) =
     fx_derivations
       (usd_rates (case map_of kvs ''BRL'' of None \<Rightarrow> PyNone | Some v \<Rightarrow> v)
                  (case map_of kvs ''CHF'' of None \<Rightarrow> PyNone | Some v \<Rightarrow> v)
                  (case map_of kvs ''EUR'' of None \<Rightarrow> PyNone | Some v \<Rightarrow> v)
                  (case map_of kvs ''GBP'' of None \<Rightarrow> PyNone | Some v \<Rightarrow> v))"
  unfolding fx_try_def fx_derivations_def using assms
  by (simp only: http_result.case json_body.case sum.case simp_thms if_True fx_block_dict)

lemma fx_try_shape:
  "(\<exists>x. fx_try http = (x, Map.empty))
   \<or> (\<exists>j kvs. http = Http_Response 200 (Json j)
         \<and> py_get j ''rates'' (PyDict []) = Inr (PyDict kvs))"
proof (cases http)
  case (Http_Raises e)
  then show ?thesis by (simp add: fx_try_def)
next
  case (Http_Response status_code body)
  show ?thesis
  proof (cases "status_code = 200")
    case False
    with Http_Response show ?thesis by (simp add: fx_try_def)
  next
    case True
    show ?thesis
    proof (cases body)
      case (Json_Raises e)
      with True Http_Response show ?thesis by (simp add: fx_try_def)
    next
      case (Json j)
      show ?thesis
      proof (cases "py_get j ''rates'' (PyDict [])")
        case (Inl e)
        with True Http_Response Json show ?thesis by (simp add: fx_try_def)
      next
        case (Inr usd)
        show ?thesis
        proof (cases "\<exists>kvs. usd = PyDict kvs")
          case True
          with \<open>status_code = 200\<close> Http_Response Json Inr show ?thesis by auto
        next
          case False
          then have "\<forall>kvs. usd \<noteq> PyDict kvs" by simp
          then have "fx_try http = (Some AttributeError, Map.empty)"
            unfolding fx_try_def Http_Response Json \<open>status_code = 200\<close>
            by (simp only: http_result.case json_body.case sum.case simp_thms if_True Inr
                fx_block_not_dict)
          then show ?thesis by simp
        qed
      qed
    qed
  qed
qed

lemma get_fx_rates_snd: "get_fx_rates http = snd (fx_try http)"
  by (simp add: get_fx_rates_def split: prod.splits option.splits)

lemma no_rate_absent: "rates k = None \<Longrightarrow> no_rate rates k"
  by (simp add: no_rate_def dict_get_def)

text \<open>
  C5. In every table the aggregator returns, a derived cross-rate is present only if its
  base rates are: BRL/USD is absent when USD/BRL has no rate, GBP/USD is absent when
  USD/GBP has none, and EUR/CHF is absent when USD/CHF or USD/EUR has none, where "no
  rate" covers a missing key, \<^verbatim>\<open>None\<close> and zero; the same holds for a key that is
  simply missing.
\<close>

theorem derived_rates_need_base_rates:
  "(no_rate (get_fx_rates http) ''USD/BRL'' \<longrightarrow> get_fx_rates http ''BRL/USD'' = None)
   \<and> (no_rate (get_fx_rates http) ''USD/GBP'' \<longrightarrow> get_fx_rates http ''GBP/USD'' = None)
   \<and> (no_rate (get_fx_rates http) ''USD/CHF'' \<or> no_rate (get_fx_rates http) ''USD/EUR''
        \<longrightarrow> get_fx_rates http ''EUR/CHF'' = None)
   \<and> (get_fx_rates http ''USD/BRL'' = None \<longrightarrow> get_fx_rates http ''BRL/USD'' = None)
   \<and> (get_fx_rates http ''USD/GBP'' = None \<longrightarrow> get_fx_rates http ''GBP/USD'' = None)
   \<and> (get_fx_rates http ''USD/CHF'' = None \<or> get_fx_rates http ''USD/EUR'' = None
        \<longrightarrow> get_fx_rates http ''EUR/CHF'' = None)"
proof -
  let ?r = "get_fx_rates http"
  have main: "(no_rate ?r ''USD/BRL'' \<longrightarrow> ?r ''BRL/USD'' = None)
       \<and> (no_rate ?r ''USD/GBP'' \<longrightarrow> ?r ''GBP/USD'' = None)
       \<and> (no_rate ?r ''USD/CHF'' \<or> no_rate ?r ''USD/EUR'' \<longrightarrow> ?r ''EUR/CHF'' = None)"
    using fx_try_shape [of http]
  proof
    assume "\<exists>x. fx_try http = (x, Map.empty)"
    then have "?r = Map.empty" by (auto simp: get_fx_rates_snd)
    then show ?thesis by simp
  next
    assume "\<exists>j kvs. http = Http_Response 200 (Json j)
         \<and> py_get j ''rates'' (PyDict []) = Inr (PyDict kvs)"
    then obtain j kvs where h: "http = Http_Response 200 (Json j)"
      and g: "py_get j ''rates'' (PyDict []) = Inr (PyDict kvs)" by blast
    obtain x rates where d: "fx_try http = (x, rates)" by (cases "fx_try http")
    then have r: "?r = rates" by (simp add: get_fx_rates_snd)
    from d h fx_try_dict [OF g] have "\<exists>b c e g'. fx_derivations (usd_rates b c e g') = (x, rates)"
      by metis
    then obtain b c e g' where "fx_derivations (usd_rates b c e g') = (x, rates)" by blast
    from fx_derivations_guard [OF this] show ?thesis
      unfolding r no_rate_def by blast
  qed
  then show ?thesis using no_rate_absent by blast
qed









lemma example_fx_try:
  "fx_try (Http_Response 200 (Json example_fx_json)) =
     (None, (usd_rates (PyNum 5) (PyNum 0.95) (PyNum 0.9) (PyNum 0.8))
              (''BRL/USD'' \<mapsto> PyNum (1 / 5), ''EUR/CHF'' \<mapsto> PyNum (0.95 / 0.9),
               ''GBP/USD'' \<mapsto> PyNum (1 / 0.8)))"
proof -
  have g: "py_get example_fx_json ''rates'' (PyDict []) =
      Inr (PyDict [(''BRL'', PyNum 5), (''EUR'', PyNum 0.9), (''CHF'', PyNum 0.95), (''GBP'', PyNum 0.8)])"
    by (simp add: example_fx_json_def py_get_def)
  show ?thesis
    unfolding fx_try_dict [OF g] fx_derivations_run reciprocal_step quotient_step
    by (simp add: dict_get_usd_rates dict_get_upd)
qed

lemma malformed_fx_try:
  "fx_try (Http_Response 200 (Json malformed_fx_json)) =
     (Some TypeError, usd_rates (PyStr ''n/a'') PyNone PyNone (PyNum 0.8))"
proof -
  have g: "py_get malformed_fx_json ''rates'' (PyDict []) =
      Inr (PyDict [(''BRL'', PyStr ''n/a''), (''GBP'', PyNum 0.8)])"
    by (simp add: malformed_fx_json_def py_get_def)
  show ?thesis
    unfolding fx_try_dict [OF g] fx_derivations_run reciprocal_step quotient_step
    by (simp add: dict_get_usd_rates dict_get_upd)
qed



text \<open>
  C8. When the HTTP call raises or answers with a status other than 200, the aggregator
  returns the empty table, in which every lookup gives \<^verbatim>\<open>None\<close> and not zero; and
  whatever the body of the \<^verbatim>\<open>try\<close> did, raising or not, the aggregator returns the table
  as the body left it.
\<close>

theorem fx_failure_returns_partial_table:
  "get_fx_rates (Http_Raises e) = Map.empty
   \<and> dict_get (get_fx_rates (Http_Raises e)) k = PyNone
   \<and> (status_code \<noteq> 200 \<longrightarrow>
        get_fx_rates (Http_Response status_code body) = Map.empty
      \<and> dict_get (get_fx_rates (Http_Response status_code body)) k = PyNone)
   \<and> (fx_try http = (x, rates) \<longrightarrow> get_fx_rates http = rates)"
  by (simp add: get_fx_rates_snd fx_try_not_ok dict_get_def)

theorem fx_failure_returns_partial_table_witness:
  "get_fx_rates (Http_Raises (ExternalError ''timed out'')) = Map.empty
   \<and> get_fx_rates (Http_Response 503 (Json example_fx_json)) = Map.empty
   \<and> dict_get (get_fx_rates (Http_Response 503 (Json example_fx_json))) ''USD/BRL'' = PyNone
   \<and> get_fx_rates (Http_Response 200 (Json malformed_fx_json))
       = usd_rates (PyStr ''n/a'') PyNone PyNone (PyNum 0.8)"
proof -
  note t = fx_failure_returns_partial_table
    [where e = "ExternalError ''timed out''" and status_code = 503
       and body = "Json example_fx_json" and k = "''USD/BRL''"
       and http = "Http_Response 200 (Json malformed_fx_json)" and x = "Some TypeError"
       and rates = "usd_rates (PyStr ''n/a'') PyNone PyNone (PyNum 0.8)"]
  from t malformed_fx_try show ?thesis by (simp add: dict_get_def)
qed

theorem derived_rates_need_base_rates_witness:
  "no_rate (get_fx_rates (Http_Response 200 (Json malformed_fx_json))) ''USD/CHF''
   \<and> get_fx_rates (Http_Response 200 (Json malformed_fx_json)) ''EUR/CHF'' = None
   \<and> get_fx_rates (Http_Response 503 (Json example_fx_json)) ''USD/BRL'' = None
   \<and> get_fx_rates (Http_Response 503 (Json example_fx_json)) ''BRL/USD'' = None
   \<and> get_fx_rates (Http_Response 503 (Json example_fx_json)) ''GBP/USD'' = None"
proof -
  have m: "get_fx_rates (Http_Response 200 (Json malformed_fx_json))
      = usd_rates (PyStr ''n/a'') PyNone PyNone (PyNum 0.8)"
    using malformed_fx_try by (simp add: get_fx_rates_snd)
  have n: "no_rate (get_fx_rates (Http_Response 200 (Json malformed_fx_json))) ''USD/CHF''"
    unfolding m by (simp add: no_rate_def dict_get_usd_rates)
  have e: "get_fx_rates (Http_Response 503 (Json example_fx_json)) = Map.empty"
    by (simp add: get_fx_rates_snd fx_try_not_ok)
  note a = derived_rates_need_base_rates [of "Http_Response 200 (Json malformed_fx_json)"]
  note b = derived_rates_need_base_rates [of "Http_Response 503 (Json example_fx_json)"]
  from n a have "get_fx_rates (Http_Response 200 (Json malformed_fx_json)) ''EUR/CHF'' = None"
    by blast
  moreover from e b
  have "get_fx_rates (Http_Response 503 (Json example_fx_json)) ''BRL/USD'' = None
      \<and> get_fx_rates (Http_Response 503 (Json example_fx_json)) ''GBP/USD'' = None"
    by simp
  ultimately show ?thesis using n e by simp
qed

section \<open>Properties of the orchestrators\<close>

lemma dev_str_usable: "usable_rate v \<Longrightarrow> \<exists>s. dev_str fmt v P = Inr s"
  by (cases v)
     (auto simp: dev_str_def deviation_def py_sub_def py_truediv_def Let_def)

lemma format_4f_usable: "usable_rate v \<Longrightarrow> truthy v \<Longrightarrow> \<exists>s. format_4f fmt v = Inr s"
  by (cases v) auto

lemma pool_row_of_success:
  assumes "usable_rate (fx_rate_for fx_rates pool)"
  shows "\<exists>row. pool_row_of fmt fx_rates sdai_rate pool (Price_Success price) = Inr row
     \<and> row_price row = fmt_4f fmt (adjusted_pool_price pool price sdai_rate)
     \<and> dev_str fmt (fx_rate_for fx_rates pool) (adjusted_pool_price pool price sdai_rate)
          = Inr (row_dev row)"
proof -
  let ?v = "fx_rate_for fx_rates pool"
  let ?p = "adjusted_pool_price pool price sdai_rate"
  obtain d where d: "dev_str fmt ?v ?p = Inr d"
    using dev_str_usable [OF assms] by blast
  obtain r where r: "(if truthy ?v then format_4f fmt ?v else Inr em_dash) = Inr r"
    using format_4f_usable [OF assms] by (cases "truthy ?v") auto
  show ?thesis
    by (simp add: pool_row_of_def Let_def d r)
qed




lemma dict_get_usd_rates_derived:
  "dict_get (usd_rates brl chf eur gbp) ''BRL/USD'' = PyNone"
  "dict_get (usd_rates brl chf eur gbp) ''EUR/CHF'' = PyNone"
  "dict_get (usd_rates brl chf eur gbp) ''GBP/USD'' = PyNone"
  by (simp_all add: dict_get_def usd_rates_def)

lemma fx_derivations_derived_num:
  assumes "fx_derivations (usd_rates brl chf eur gbp) = (x, rates)"
  shows "usable_rate (dict_get rates ''BRL/USD'') \<and> usable_rate (dict_get rates ''EUR/CHF'')
       \<and> usable_rate (dict_get rates ''GBP/USD'') \<and> dict_get rates ''USD/BRL'' = brl"
  using assms unfolding fx_derivations_run reciprocal_step quotient_step
  by (auto simp: dict_get_usd_rates dict_get_usd_rates_derived dict_get_upd
      split: if_splits option.splits)

lemma get_fx_rates_usable:
  "usable_rate (dict_get (get_fx_rates http) ''BRL/USD'')
   \<and> usable_rate (dict_get (get_fx_rates http) ''EUR/CHF'')
   \<and> usable_rate (dict_get (get_fx_rates http) ''GBP/USD'')"
  using fx_try_shape [of http]
proof
  assume "\<exists>x. fx_try http = (x, Map.empty)"
  then have "get_fx_rates http = Map.empty" by (auto simp: get_fx_rates_snd)
  then show ?thesis by (simp add: dict_get_def)
next
  assume "\<exists>j kvs. http = Http_Response 200 (Json j)
         \<and> py_get j ''rates'' (PyDict []) = Inr (PyDict kvs)"
  then obtain j kvs where h: "http = Http_Response 200 (Json j)"
    and g: "py_get j ''rates'' (PyDict []) = Inr (PyDict kvs)" by blast
  obtain x rates where d: "fx_try http = (x, rates)" by (cases "fx_try http")
  then have r: "get_fx_rates http = rates" by (simp add: get_fx_rates_snd)
  from d h fx_try_dict [OF g] have "\<exists>b c e g'. fx_derivations (usd_rates b c e g') = (x, rates)"
    by metis
  then obtain b c e g' where "fx_derivations (usd_rates b c e g') = (x, rates)" by blast
  from fx_derivations_derived_num [OF this] show ?thesis
    unfolding r by blast
qed

text \<open>
  For the configured pools the proviso of the orchestrator theorem below concerns one
  value only: the derived rates are numbers whenever they are present, so the table the
  aggregator returns is usable as soon as the fetched USD/BRL value is.
\<close>

lemma POOLS_usable:
  assumes "usable_rate (dict_get (get_fx_rates http) ''USD/BRL'')"
  shows "\<forall>pool\<in>set POOLS. usable_rate (fx_rate_for (get_fx_rates http) pool)"
  using assms get_fx_rates_usable [of http] by (simp add: POOLS_def fx_rate_for_def)








lemma example_get_fx_rates:
  "get_fx_rates (Http_Response 200 (Json example_fx_json)) =
     (usd_rates (PyNum 5) (PyNum 0.95) (PyNum 0.9) (PyNum 0.8))
       (''BRL/USD'' \<mapsto> PyNum (1 / 5), ''EUR/CHF'' \<mapsto> PyNum (0.95 / 0.9),
        ''GBP/USD'' \<mapsto> PyNum (1 / 0.8))"
  using example_fx_try by (simp add: get_fx_rates_snd)

lemma example_usable:
  "\<forall>pool\<in>set POOLS.
     usable_rate (fx_rate_for (get_fx_rates (Http_Response 200 (Json example_fx_json))) pool)"
  unfolding example_get_fx_rates
  by (simp add: POOLS_def fx_rate_for_def dict_get_def usd_rates_def)




section \<open>Properties of the yield adjustment\<close>

text \<open>
  C6. For a pool with the yield-adjustment flag (and a benchmark that is a number or
  missing), a successfully decoded price is multiplied by the vault ratio: the row's
  price cell and the deviation are those of \<open>price * sdai_rate\<close>. The ratio is
  \<open>assets / 10^18\<close> when the vault call returns \<open>assets\<close>; when the address
  conversion or the vault call raises, the ratio is 1 and the row is built from the
  unadjusted price.
\<close>

theorem sdai_adjustment:
  assumes "sdai_adjust pool"
    and "usable_rate (fx_rate_for fx_rates pool)"
  shows "adjusted_pool_price pool price sdai_rate = price * sdai_rate
     \<and> (\<exists>row. pool_row_of fmt fx_rates sdai_rate pool (Price_Success price) = Inr row
            \<and> row_price row = fmt_4f fmt (price * sdai_rate)
            \<and> dev_str fmt (fx_rate_for fx_rates pool) (price * sdai_rate) = Inr (row_dev row))
     \<and> (to_checksum_address w SDAI_ADDRESS = Inr sdai
          \<and> convertToAssets (w3_gnosis w) sdai (10 ^ 18) = Inr assets
          \<longrightarrow> get_sdai_rate w = real (unat assets) / 10 ^ 18)
     \<and> (to_checksum_address w SDAI_ADDRESS = Inl e
          \<or> (to_checksum_address w SDAI_ADDRESS = Inr sdai
               \<and> convertToAssets (w3_gnosis w) sdai (10 ^ 18) = Inl e)
          \<longrightarrow> get_sdai_rate w = 1
            \<and> adjusted_pool_price pool price (get_sdai_rate w) = price
            \<and> (\<exists>row. pool_row_of fmt fx_rates (get_sdai_rate w) pool (Price_Success price)
                        = Inr row
                  \<and> row_price row = fmt_4f fmt price))"
proof -
  have a: "adjusted_pool_price pool price r = price * r" for r
    using assms(1) by (simp add: adjusted_pool_price_def)
  have row: "\<exists>row. pool_row_of fmt fx_rates r pool (Price_Success price) = Inr row
            \<and> row_price row = fmt_4f fmt (price * r)
            \<and> dev_str fmt (fx_rate_for fx_rates pool) (price * r) = Inr (row_dev row)" for r
    using pool_row_of_success [OF assms(2), of fmt r price] by (simp add: a)
  have ok: "get_sdai_rate w = real (unat assets) / 10 ^ 18"
    if "to_checksum_address w SDAI_ADDRESS = Inr sdai
          \<and> convertToAssets (w3_gnosis w) sdai (10 ^ 18) = Inr assets"
    using that by (simp add: get_sdai_rate_def)
  have fail: "get_sdai_rate w = 1"
    if "to_checksum_address w SDAI_ADDRESS = Inl e
          \<or> (to_checksum_address w SDAI_ADDRESS = Inr sdai
               \<and> convertToAssets (w3_gnosis w) sdai (10 ^ 18) = Inl e)"
    using that by (auto simp: get_sdai_rate_def)
  show ?thesis
  proof (intro conjI impI)
    show "adjusted_pool_price pool price sdai_rate = price * sdai_rate" by (rule a)
    show "\<exists>row. pool_row_of fmt fx_rates sdai_rate pool (Price_Success price) = Inr row
            \<and> row_price row = fmt_4f fmt (price * sdai_rate)
            \<and> dev_str fmt (fx_rate_for fx_rates pool) (price * sdai_rate) = Inr (row_dev row)"
      by (rule row)
  next
    assume "to_checksum_address w SDAI_ADDRESS = Inr sdai
          \<and> convertToAssets (w3_gnosis w) sdai (10 ^ 18) = Inr assets"
    then show "get_sdai_rate w = real (unat assets) / 10 ^ 18" by (rule ok)
  next
    assume f: "to_checksum_address w SDAI_ADDRESS = Inl e
          \<or> (to_checksum_address w SDAI_ADDRESS = Inr sdai
               \<and> convertToAssets (w3_gnosis w) sdai (10 ^ 18) = Inl e)"
    show "get_sdai_rate w = 1" using f by (rule fail)
    show "adjusted_pool_price pool price (get_sdai_rate w) = price"
      using a [of "get_sdai_rate w"] fail [OF f] by simp
    show "\<exists>row. pool_row_of fmt fx_rates (get_sdai_rate w) pool (Price_Success price) = Inr row
            \<and> row_price row = fmt_4f fmt price"
      using row [of 1] fail [OF f] by auto
  qed
qed

theorem sdai_adjustment_witness:
  "get_sdai_rate example_web3 = 1.05
   \<and> adjusted_pool_price (POOLS ! 3) 1.20 (get_sdai_rate example_web3) = 1.26
   \<and> (\<exists>row. pool_row_of example_format
                (get_fx_rates (Http_Response 200 (Json example_fx_json)))
                (get_sdai_rate example_web3) (POOLS ! 3) (Price_Success 1.20) = Inr row
          \<and> row_price row = fmt_4f example_format 1.26)
   \<and> get_sdai_rate failing_web3 = 1
   \<and> adjusted_pool_price (POOLS ! 3) 1.20 (get_sdai_rate failing_web3) = 1.20
   \<and> (\<exists>row. pool_row_of example_format
                (get_fx_rates (Http_Response 200 (Json example_fx_json)))
                (get_sdai_rate failing_web3) (POOLS ! 3) (Price_Success 1.20) = Inr row
          \<and> row_price row = fmt_4f example_format 1.20)"
proof -
  have f: "sdai_adjust (POOLS ! 3)" by (simp add: POOLS_def)
  have u: "usable_rate
      (fx_rate_for (get_fx_rates (Http_Response 200 (Json example_fx_json))) (POOLS ! 3))"
    using example_usable by (simp add: POOLS_def)
  have ok: "to_checksum_address example_web3 SDAI_ADDRESS = Inr SDAI_ADDRESS
      \<and> convertToAssets (w3_gnosis example_web3) SDAI_ADDRESS (10 ^ 18) = Inr (105 * 10 ^ 16)"
    by (simp add: example_web3_def example_chain_def)
  have bad: "to_checksum_address failing_web3 SDAI_ADDRESS = Inr SDAI_ADDRESS
      \<and> convertToAssets (w3_gnosis failing_web3) SDAI_ADDRESS (10 ^ 18) = Inl ''timeout''"
    by (simp add: failing_web3_def failing_chain_def)
  note a = sdai_adjustment [OF f u, where w = example_web3 and sdai = SDAI_ADDRESS
      and assets = "105 * 10 ^ 16"]
  note b = sdai_adjustment [OF f u, where w = failing_web3 and sdai = SDAI_ADDRESS
      and e = "''timeout''"]
  have r1: "get_sdai_rate example_web3 = 21 / 20"
    using a ok by simp
  have r2: "get_sdai_rate failing_web3 = 1"
    using b bad by blast
  note a' = sdai_adjustment [OF f u, where price = "6 / 5" and fmt = example_format
      and sdai_rate = "21 / 20"]
  note b' = sdai_adjustment [OF f u, where price = "6 / 5" and fmt = example_format
      and sdai_rate = 1]
  have q1: "adjusted_pool_price (POOLS ! 3) (6 / 5) (21 / 20) = 63 / 50"
    using a' [THEN conjunct1] by simp
  have q2: "\<exists>row. pool_row_of example_format
                (get_fx_rates (Http_Response 200 (Json example_fx_json)))
                (21 / 20) (POOLS ! 3) (Price_Success (6 / 5)) = Inr row
          \<and> row_price row = fmt_4f example_format (63 / 50)"
    using a' [THEN conjunct2, THEN conjunct1] by auto
  have q3: "adjusted_pool_price (POOLS ! 3) (6 / 5) 1 = 6 / 5"
    using b' [THEN conjunct1] by simp
  have q4: "\<exists>row. pool_row_of example_format
                (get_fx_rates (Http_Response 200 (Json example_fx_json)))
                1 (POOLS ! 3) (Price_Success (6 / 5)) = Inr row
          \<and> row_price row = fmt_4f example_format (6 / 5)"
    using b' [THEN conjunct2, THEN conjunct1] by auto
  have d: "(1.05 :: real) = 21 / 20" "(1.20 :: real) = 6 / 5" "(1.26 :: real) = 63 / 50"
    by simp_all
  show ?thesis
    unfolding r1 r2 d using q1 q2 q3 q4 by blast
qed

section \<open>Properties of the TTL cache layer\<close>

lemma cached_call_miss:
  assumes "\<forall>v created. entries c args = Some (v, created) \<longrightarrow> ttl \<le> now - created"
  shows "cached_call ttl fetch now args c = cache_refresh fetch now args c"
  using assms by (auto simp: cached_call_def split: option.splits)

lemma cached_call_hit:
  assumes "entries c args = Some (v, created)" and "now - created < ttl"
  shows "cached_call ttl fetch now args c = (v, c)"
  using assms by (simp add: cached_call_def)

lemma cache_refresh_sel:
  "fst (cache_refresh fetch now args c) = fetch now args"
  "fetches (snd (cache_refresh fetch now args c)) = fetches c @ [(args, now)]"
  "entries (snd (cache_refresh fetch now args c)) args = Some (fetch now args, now)"
  by (simp_all add: cache_refresh_def Let_def)

text \<open>
  C9. Starting from a cache with no live entry for the arguments at time \<open>t1\<close>, a call at
  \<open>t1\<close> invokes the underlying function once and stores its result; a second call at
  \<open>t2\<close>, less than the TTL after \<open>t1\<close>, returns the stored value and leaves the cache
  and the record of invocations unchanged; a call at \<open>t3\<close>, at least the TTL after
  \<open>t1\<close>, is not served from the entry: it invokes the underlying function again and
  replaces the entry.
\<close>

theorem ttl_cache_fetches_once:
  assumes "\<forall>v created. entries c args = Some (v, created) \<longrightarrow> ttl \<le> t1 - created"
    and "t2 - t1 < ttl" and "ttl \<le> t3 - t1"
  shows "let c1 = snd (cached_call ttl fetch t1 args c);
             c2 = snd (cached_call ttl fetch t2 args c1)
         in fst (cached_call ttl fetch t1 args c) = fetch t1 args
          \<and> fetches c1 = fetches c @ [(args, t1)]
          \<and> entries c1 args = Some (fetch t1 args, t1)
          \<and> fst (cached_call ttl fetch t2 args c1) = fetch t1 args
          \<and> c2 = c1
          \<and> fst (cached_call ttl fetch t3 args c2) = fetch t3 args
          \<and> fetches (snd (cached_call ttl fetch t3 args c2)) = fetches c @ [(args, t1), (args, t3)]
          \<and> entries (snd (cached_call ttl fetch t3 args c2)) args = Some (fetch t3 args, t3)"
proof -
  define c1 where "c1 = snd (cached_call ttl fetch t1 args c)"
  have first: "cached_call ttl fetch t1 args c = cache_refresh fetch t1 args c"
    using assms(1) by (rule cached_call_miss)
  have e1: "entries c1 args = Some (fetch t1 args, t1)"
    and f1: "fetches c1 = fetches c @ [(args, t1)]"
    unfolding c1_def first by (simp_all add: cache_refresh_sel)
  have second: "cached_call ttl fetch t2 args c1 = (fetch t1 args, c1)"
    using e1 assms(2) by (rule cached_call_hit)
  have third: "cached_call ttl fetch t3 args c1 = cache_refresh fetch t3 args c1"
    using e1 assms(3) by (intro cached_call_miss) simp
  show ?thesis
    unfolding Let_def c1_def [symmetric] second
    by (simp add: first third cache_refresh_sel f1 e1)
qed

theorem ttl_cache_fetches_once_witness:
  "fst (cached_call 60 example_fetch 0 ''0x57'' empty_cache) = Price_Success 1
   \<and> fetches (snd (cached_call 60 example_fetch 0 ''0x57'' empty_cache)) = [(''0x57'', 0)]
   \<and> cached_call 60 example_fetch 59 ''0x57''
        (snd (cached_call 60 example_fetch 0 ''0x57'' empty_cache))
       = (Price_Success 1, snd (cached_call 60 example_fetch 0 ''0x57'' empty_cache))
   \<and> fst (cached_call 60 example_fetch 60 ''0x57''
        (snd (cached_call 60 example_fetch 0 ''0x57'' empty_cache))) = Price_Failure ''timeout''
   \<and> fetches (snd (cached_call 60 example_fetch 60 ''0x57''
        (snd (cached_call 60 example_fetch 0 ''0x57'' empty_cache))))
       = [(''0x57'', 0), (''0x57'', 60)]"
proof -
  have h: "\<forall>v created. entries (empty_cache :: (string, price_result) cache) ''0x57''
      = Some (v, created) \<longrightarrow> 60 \<le> 0 - created"
    by (simp add: empty_cache_def)
  have f: "example_fetch 0 ''0x57'' = Price_Success 1"
    "example_fetch 60 ''0x57'' = Price_Failure ''timeout''"
    by (simp_all add: example_fetch_def example_pool_prices)
  have e: "fetches (empty_cache :: (string, price_result) cache) = []"
    by (simp add: empty_cache_def)
  note t = ttl_cache_fetches_once [OF h, where ?t2.0 = 59 and ?t3.0 = 60 and fetch = example_fetch]
  from t show ?thesis
    unfolding Let_def f e by (auto simp: prod_eq_iff)
qed

end
